theory Spec2Isabelle
  imports Main
begin

section \<open>JavaScript values and strings\<close>

text \<open>
  The arguments of \<open>makePrivateID\<close> are tested with \<open>typeof\<close>, so they are
  modelled as JavaScript values. A missing argument is \<open>JS_undefined\<close>.
\<close>

datatype js_value =
    JS_undefined
  | JS_null
  | JS_boolean bool
  | JS_number int
  | JS_string string
  | JS_object

fun typeof :: "js_value \<Rightarrow> string" where
  "typeof JS_undefined = ''undefined''"
| "typeof JS_null = ''object''"
| "typeof (JS_boolean b) = ''boolean''"
| "typeof (JS_number n) = ''number''"
| "typeof (JS_string s) = ''string''"
| "typeof JS_object = ''object''"

text \<open>\<open>s.startsWith(p)\<close>.\<close>

definition startsWith :: "string \<Rightarrow> string \<Rightarrow> bool" where
  "startsWith s p = (take (length p) s = p)"

text \<open>
  \<open>s.split("0.").join("")\<close>: the occurrences of \<open>0.\<close> are found from left to
  right, without overlap, and dropped.
\<close>

fun split_join_zero_dot :: "string \<Rightarrow> string" where
  "split_join_zero_dot (a # b # cs) =
     (if a = CHR ''0'' \<and> b = CHR ''.'' then split_join_zero_dot cs
      else a # split_join_zero_dot (b # cs))"
| "split_join_zero_dot cs = cs"

text \<open>
  \<open>s.split(".")[1]\<close>: the piece between the first and the second dot,
  \<open>undefined\<close> (here \<open>None\<close>) when \<open>s\<close> has no dot.
\<close>

definition split_dot_second :: "string \<Rightarrow> string option" where
  "split_dot_second s =
     (case dropWhile (\<lambda>c. c \<noteq> CHR ''.'') s of
        [] \<Rightarrow> None
      | d # rest \<Rightarrow> Some (takeWhile (\<lambda>c. c \<noteq> CHR ''.'') rest))"

section \<open>The connection registry\<close>

text \<open>
  \<open>last_update\<close> is written as \<open>new Date()\<close> on one path and as \<open>Date.now()\<close> on
  the other: a Date object or a number of milliseconds.
\<close>

datatype js_time = DateObject nat | Milliseconds nat

record connectionObj =
  user_token :: string
  socket :: "nat option"
  last_update :: js_time
  server_token :: string

text \<open>
  \<open>namespace.websocket.connections\<close> is an object whose properties are connection
  identifiers; \<open>for ... in\<close> visits them in the order of their creation. A property
  holds an array of connection objects, or \<open>null\<close>/\<open>undefined\<close> (\<open>None\<close>).
  The object itself is \<open>undefined\<close> (\<open>None\<close>) until the first handshake creates it.
\<close>

type_synonym connections = "(string \<times> connectionObj list option) list"

type_synonym websocket_state = "connections option"

text \<open>\<open>connections[k]\<close>, with \<open>null\<close> and \<open>undefined\<close> identified.\<close>

definition property :: "connections \<Rightarrow> string \<Rightarrow> connectionObj list option" where
  "property conns k = (case map_of conns k of Some (Some arr) \<Rightarrow> Some arr | _ \<Rightarrow> None)"

text \<open>\<open>connections[k] = v\<close>: an existing property keeps its place, a new one goes last.\<close>

fun assign :: "string \<Rightarrow> connectionObj list \<Rightarrow> connections \<Rightarrow> connections" where
  "assign k v [] = [(k, Some v)]"
| "assign k v (p # ps) = (if fst p = k then (k, Some v) # ps else p # assign k v ps)"

section \<open>Requests, configuration and replies\<close>

record core_socket =
  remoteAddress :: string
  remoteFamily :: string

text \<open>
  \<open>serverRequest.socket\<close> is the HTTP core socket when there is one; otherwise
  \<open>serverRequest._socket\<close>, the WebSocket core socket, is read. The tokens in
  \<open>requestObj.params\<close> are strings, as in the data model, so that the \<open>==\<close> of the
  source is equality of strings.
\<close>

record sessionObj =
  endpoint :: string
  serverRequest_socket :: "core_socket option"
  serverRequest__socket :: core_socket
  params_user_token :: string
  params_server_token :: string

record rpc_options =
  http_only_handshake :: bool
  max_ws_per_ip :: int

text \<open>What the handler reads from outside: \<open>String(Math.random())\<close> and the clock.\<close>

record environment =
  math_random :: string
  clock :: nat

datatype JSONRPC_ERRORS = WRONG_TRANSPORT | SESSION_CLOSE

record infoObj =
  info_numconnections :: nat
  info_maxconnections :: int

record responseObj =
  message :: string
  numconnections :: nat
  maxconnections :: int
  peerconnections :: nat
  response_server_token :: string

datatype reply =
    sendError JSONRPC_ERRORS string "infoObj option"
  | sendResult responseObj

text \<open>The three failures of the handshake, as the replies the handler sends.\<close>

definition WrongTransport :: reply where
  "WrongTransport =
     sendError WRONG_TRANSPORT
       ''Session handshake must be made through HTTP / HTTPS service.'' None"

definition DuplicateToken :: reply where
  "DuplicateToken = sendError SESSION_CLOSE ''User token already exists for your IP.'' None"

definition TooManyConnections :: "nat \<Rightarrow> int \<Rightarrow> reply" where
  "TooManyConnections n m =
     sendError SESSION_CLOSE ''Too many connections from your IP.''
       (Some \<lparr>info_numconnections = n, info_maxconnections = m\<rparr>)"

section \<open>makeConnectionID\<close>

definition makeConnectionID :: "sessionObj \<Rightarrow> string" where
  "makeConnectionID sessionObj =
     (let socket = (case serverRequest_socket sessionObj of
                      Some s \<Rightarrow> s
                    | None \<Rightarrow> serverRequest__socket sessionObj);
          requestIP = remoteAddress socket;
          IPFamily = remoteFamily socket
      in IPFamily @ '':'' @ requestIP)"

section \<open>WSS\_Handshake\<close>

text \<open>
  The inner loop over one array: \<open>None\<close> when a record carries the request's user
  token (the handler replies and returns), otherwise the running count.
\<close>

fun scan_array :: "string \<Rightarrow> connectionObj list \<Rightarrow> nat \<Rightarrow> nat option" where
  "scan_array tok [] num = Some num"
| "scan_array tok (websocketObj # rest) num =
     (if user_token websocketObj = tok then None
      else scan_array tok rest (Suc num))"

text \<open>The outer \<open>for (var item in connections)\<close> loop, over the property names.\<close>

fun scan_connections :: "connections \<Rightarrow> string list \<Rightarrow> string \<Rightarrow> nat \<Rightarrow> nat option" where
  "scan_connections conns [] tok num = Some num"
| "scan_connections conns (item # items) tok num =
     (case property conns item of
        None \<Rightarrow> scan_connections conns items tok num
      | Some arr \<Rightarrow>
          (case scan_array tok arr num of
             None \<Rightarrow> None
           | Some num' \<Rightarrow> scan_connections conns items tok num'))"

text \<open>
  The handler returns \<open>false\<close>, \<open>undefined\<close> (\<open>None\<close>) or \<open>true\<close>, sends one
  reply and leaves a registry behind.
\<close>

definition WSS_Handshake ::
  "rpc_options \<Rightarrow> environment \<Rightarrow> websocket_state \<Rightarrow> sessionObj
     \<Rightarrow> bool option \<times> reply \<times> websocket_state" where
  "WSS_Handshake opts env state sessionObj =
     (if startsWith (endpoint sessionObj) ''http'' = False \<and> http_only_handshake opts
      then (Some False, WrongTransport, state)
      else
        let conns = (case state of None \<Rightarrow> [] | Some c \<Rightarrow> c);
            connectionID = makeConnectionID sessionObj
        in case scan_connections conns (map fst conns) (params_user_token sessionObj) 0 of
             None \<Rightarrow> (None, DuplicateToken, Some conns)
           | Some num_activeconnections \<Rightarrow>
               let new_server_token = split_join_zero_dot (math_random env)
               in case property conns connectionID of
                    None \<Rightarrow>
                      (Some True,
                       sendResult
                         \<lparr>message = ''accept'',
                          numconnections = 1,
                          maxconnections = max_ws_per_ip opts,
                          peerconnections = Suc num_activeconnections,
                          response_server_token = new_server_token\<rparr>,
                       Some (assign connectionID
                               [\<lparr>user_token = params_user_token sessionObj,
                                 socket = None,
                                 last_update = DateObject (clock env),
                                 server_token = new_server_token\<rparr>] conns))
                  | Some arr \<Rightarrow>
                      (let num_active = length arr
                       in if int num_active \<ge> max_ws_per_ip opts
                          then (Some True,
                                TooManyConnections num_active (max_ws_per_ip opts),
                                Some conns)
                          else
                            (Some True,
                             sendResult
                               \<lparr>message = ''accept'',
                                numconnections = Suc num_active,
                                maxconnections = max_ws_per_ip opts,
                                peerconnections = Suc num_active,
                                response_server_token = new_server_token\<rparr>,
                             Some (assign connectionID
                                     (arr @
                                      [\<lparr>user_token = params_user_token sessionObj,
                                        socket = None,
                                        last_update = Milliseconds (clock env),
                                        server_token = new_server_token\<rparr>]) conns))))"

section \<open>handshakeOK\<close>

datatype js_error = TypeError | SyntaxError

text \<open>The loop of \<open>handshakeOK\<close>: the first record with the user token decides.\<close>

fun match_tokens :: "connectionObj list \<Rightarrow> string \<Rightarrow> string \<Rightarrow> bool" where
  "match_tokens [] ut st = False"
| "match_tokens (connectionObj # rest) ut st =
     (if user_token connectionObj = ut
      then (if server_token connectionObj = st then True else False)
      else match_tokens rest ut st)"

text \<open>
  Reading a property of \<open>connections\<close> while it is still \<open>undefined\<close> throws a
  TypeError: \<open>handshakeOK\<close> has no guard for that.
\<close>

definition handshakeOK :: "websocket_state \<Rightarrow> sessionObj \<Rightarrow> js_error + bool" where
  "handshakeOK state sessionObj =
     (case state of
        None \<Rightarrow> Inl TypeError
      | Some conns \<Rightarrow>
          (case property conns (makeConnectionID sessionObj) of
             None \<Rightarrow> Inr False
           | Some arr \<Rightarrow>
               if length arr = 0 then Inr False
               else Inr (match_tokens arr (params_user_token sessionObj)
                           (params_server_token sessionObj))))"

section \<open>makePrivateID\<close>

text \<open>
  The digest comes from Node's \<open>crypto\<close> module, which is not part of the
  repository: \<open>sha256_hex\<close> stands for
  \<open>crypto.createHash('sha256').update(m).digest('hex')\<close> and is a parameter.
  \<open>None\<close> is the \<open>null\<close> the function returns on invalid input.
\<close>

definition makePrivateID :: "(string \<Rightarrow> string) \<Rightarrow> js_value \<Rightarrow> js_value \<Rightarrow> string option" where
  "makePrivateID sha256_hex server_tok user_tok =
     (if typeof server_tok \<noteq> ''string'' then None
      else if typeof user_tok \<noteq> ''string'' then None
      else (case (server_tok, user_tok) of
              (JS_string s, JS_string u) \<Rightarrow>
                if length s = 0 then None
                else if length u = 0 then None
                else Some (sha256_hex (s @ '':'' @ u))
            | _ \<Rightarrow> None))"

section \<open>callContractAPI\<close>

text \<open>
  An object that \<open>JSON.parse\<close> returns: its \<open>id\<close> and the rest of it. Request ids
  are strings, as in the data model; an object without \<open>id\<close>, or with \<open>id: null\<close>,
  has \<open>rpc_id = None\<close>, and such an id is unequal to every request id.
\<close>

record rpc_object =
  rpc_id :: "string option"
  rpc_content :: string

text \<open>
  What \<open>JSON.parse\<close> returns when it does not throw: \<open>null\<close>, of which no property
  can be read (\<open>result.id\<close> throws a TypeError), or a value of which \<open>id\<close> can be
  read. A number, a string, a boolean or an array has no \<open>id\<close>; it reads as an
  object without one.
\<close>

datatype json_value = JSON_null | JSON_object rpc_object

record message_event =
  data :: string

text \<open>
  The promise of the call: resolved with an object, rejected with the error thrown,
  or never settled. The first two leave the rest of the inbound messages unread.
\<close>

datatype call_outcome =
    Resolved rpc_object "message_event list"
  | Rejected js_error "message_event list"
  | Suspended

text \<open>
  Modelled from the spec: \<open>RPC\<close> and \<open>onEventPromise\<close> are not among the source
  files. Following section 4.5, \<open>RPC\<close> sends the request and resolves with the
  socket's next inbound message event, and \<open>onEventPromise("message")\<close> resolves
  with the message event after that. The inbound events are a list; when it is
  used up no further message arrives and the call stays suspended. \<open>JSON.parse\<close> is
  the parameter \<open>parse\<close>, \<open>None\<close> where it throws a SyntaxError.

  \<open>wait_loop\<close> is the \<open>while\<close> loop with the \<open>result\<close> it tests: the test reads
  \<open>result.id\<close>, which throws when \<open>result\<close> is \<open>null\<close>. What the call does before
  it waits (copying the parameters, attaching the tokens, drawing the request id and
  sending) has no part in what it does with the inbound messages, but for the id.
\<close>

fun wait_loop ::
  "(string \<Rightarrow> json_value option) \<Rightarrow> string \<Rightarrow> json_value \<Rightarrow> message_event list
     \<Rightarrow> call_outcome" where
  "wait_loop parse requestID JSON_null later = Rejected TypeError later"
| "wait_loop parse requestID (JSON_object result) [] =
     (if Some requestID \<noteq> rpc_id result then Suspended else Resolved result [])"
| "wait_loop parse requestID (JSON_object result) (rpc_result # later) =
     (if Some requestID \<noteq> rpc_id result
      then (case parse (data rpc_result) of
              None \<Rightarrow> Rejected SyntaxError later
            | Some result' \<Rightarrow> wait_loop parse requestID result' later)
      else Resolved result (rpc_result # later))"

definition await_reply ::
  "(string \<Rightarrow> json_value option) \<Rightarrow> string \<Rightarrow> message_event list \<Rightarrow> call_outcome" where
  "await_reply parse requestID inbound =
     (case inbound of
        [] \<Rightarrow> Suspended
      | rpc_result # later \<Rightarrow>
          (case parse (data rpc_result) of
             None \<Rightarrow> Rejected SyntaxError later
           | Some result \<Rightarrow> wait_loop parse requestID result later))"

definition make_requestID :: "string \<Rightarrow> string" where
  "make_requestID random =
     ''CPSC'' @ (case split_dot_second random of None \<Rightarrow> ''undefined'' | Some d \<Rightarrow> d)"

definition callContractAPI ::
  "(string \<Rightarrow> json_value option) \<Rightarrow> string \<Rightarrow> message_event list \<Rightarrow> call_outcome" where
  "callContractAPI parse random inbound = await_reply parse (make_requestID random) inbound"

section \<open>Notions of the specification\<close>

text \<open>The sequence stored for an identity; empty when there is none.\<close>

definition sequence_at :: "connections \<Rightarrow> string \<Rightarrow> connectionObj list" where
  "sequence_at conns k = (case property conns k of None \<Rightarrow> [] | Some arr \<Rightarrow> arr)"

text \<open>Every record of the registry, identity by identity, as the scan visits them.\<close>

definition allRecords :: "connections \<Rightarrow> connectionObj list" where
  "allRecords conns = concat (map (sequence_at conns) (map fst conns))"

definition sequence_of :: "websocket_state \<Rightarrow> string \<Rightarrow> connectionObj list option" where
  "sequence_of state k = (case state of None \<Rightarrow> None | Some conns \<Rightarrow> property conns k)"

definition activeCountFor :: "websocket_state \<Rightarrow> string \<Rightarrow> nat" where
  "activeCountFor state k = (case sequence_of state k of None \<Rightarrow> 0 | Some arr \<Rightarrow> length arr)"

definition totalCount :: "websocket_state \<Rightarrow> nat" where
  "totalCount state = (case state of None \<Rightarrow> 0 | Some conns \<Rightarrow> length (allRecords conns))"

text \<open>The request is not stopped by the transport check.\<close>

definition transport_ok :: "rpc_options \<Rightarrow> sessionObj \<Rightarrow> bool" where
  "transport_ok opts sessionObj =
     (startsWith (endpoint sessionObj) ''http'' \<or> \<not> http_only_handshake opts)"

text \<open>
  A JavaScript object has every property name once; the association list that
  models it may not repeat a key.
\<close>

definition distinct_keys :: "websocket_state \<Rightarrow> bool" where
  "distinct_keys state =
     (case state of None \<Rightarrow> True | Some conns \<Rightarrow> distinct (map fst conns))"

definition flat :: "connections \<Rightarrow> connectionObj list" where
  "flat conns = concat (map (\<lambda>p. case snd p of None \<Rightarrow> [] | Some arr \<Rightarrow> arr) conns)"

definition both_tokens_match :: "sessionObj \<Rightarrow> connectionObj \<Rightarrow> bool" where
  "both_tokens_match sessionObj c =
     (user_token c = params_user_token sessionObj \<and>
      server_token c = params_server_token sessionObj)"

text \<open>
  The invariant of the data model: within the sequence of one identity no two records
  carry the same user token.
\<close>

definition tokens_distinct :: "websocket_state \<Rightarrow> bool" where
  "tokens_distinct state =
     (\<forall>k arr. sequence_of state k = Some arr \<longrightarrow> distinct (map user_token arr))"

text \<open>A run of handshake requests, each with what it reads from outside.\<close>

fun handshakes ::
  "rpc_options \<Rightarrow> websocket_state \<Rightarrow> (environment \<times> sessionObj) list \<Rightarrow> websocket_state" where
  "handshakes opts state [] = state"
| "handshakes opts state (request # rest) =
     handshakes opts (snd (snd (WSS_Handshake opts (fst request) state (snd request)))) rest"

subsection \<open>Concrete requests and records for the examples\<close>

definition client :: "string \<Rightarrow> string \<Rightarrow> string \<Rightarrow> string \<Rightarrow> sessionObj" where
  "client ep ip ut st =
     \<lparr>endpoint = ep,
      serverRequest_socket = Some \<lparr>remoteAddress = ip, remoteFamily = ''IPv4''\<rparr>,
      serverRequest__socket = \<lparr>remoteAddress = ip, remoteFamily = ''IPv4''\<rparr>,
      params_user_token = ut,
      params_server_token = st\<rparr>"

definition pending :: "string \<Rightarrow> string \<Rightarrow> js_time \<Rightarrow> connectionObj" where
  "pending ut st t = \<lparr>user_token = ut, socket = None, last_update = t, server_token = st\<rparr>"

text \<open>
  A stand-in for \<open>JSON.parse\<close> on messages that consist of their id: the empty
  text does not parse, the text \<open>null\<close> parses to \<open>null\<close>.
\<close>

definition parse_id_only :: "string \<Rightarrow> json_value option" where
  "parse_id_only d =
     (if d = [] then None
      else if d = ''null'' then Some JSON_null
      else Some (JSON_object \<lparr>rpc_id = Some d, rpc_content = ''{}''\<rparr>))"

section \<open>The scan of the registry\<close>

lemma scan_array_eq:
  "scan_array tok arr num =
     (if tok \<in> user_token ` set arr then None else Some (num + length arr))"
  by (induction arr arbitrary: num) auto

lemma scan_connections_eq:
  "scan_connections conns items tok num =
     (if tok \<in> user_token ` set (concat (map (sequence_at conns) items)) then None
      else Some (num + length (concat (map (sequence_at conns) items))))"
  by (induction items arbitrary: num)
     (auto simp: sequence_at_def scan_array_eq split: option.splits)

lemma scan_all_eq:
  "scan_connections conns (map fst conns) tok 0 =
     (if tok \<in> user_token ` set (allRecords conns) then None
      else Some (length (allRecords conns)))"
  by (simp add: scan_connections_eq allRecords_def)

lemma allRecords_Nil: "allRecords [] = []"
  by (simp add: allRecords_def)

lemma property_Nil: "property [] k = None"
  by (simp add: property_def)

lemma property_assign_same: "property (assign k v conns) k = Some v"
  by (induction conns) (auto simp: property_def)

lemma property_assign_other: "k' \<noteq> k \<Longrightarrow> property (assign k v conns) k' = property conns k'"
  by (induction conns) (auto simp: property_def)

lemma property_in_keys: "property conns k = Some arr \<Longrightarrow> k \<in> set (map fst conns)"
  by (auto simp: property_def split: option.splits dest: map_of_SomeD intro: rev_image_eqI)

lemma record_in_allRecords:
  "property conns k = Some arr \<Longrightarrow> r \<in> set arr \<Longrightarrow> r \<in> set (allRecords conns)"
proof -
  assume p: "property conns k = Some arr" and r: "r \<in> set arr"
  have "k \<in> set (map fst conns)" using p by (rule property_in_keys)
  moreover have "r \<in> set (sequence_at conns k)" using p r by (simp add: sequence_at_def)
  ultimately show ?thesis unfolding allRecords_def by auto
qed

subsection \<open>Registries without repeated keys\<close>

lemma keys_assign:
  "map fst (assign k v conns) =
     (if k \<in> set (map fst conns) then map fst conns else map fst conns @ [k])"
  by (induction conns) auto

lemma distinct_keys_assign:
  "distinct (map fst conns) \<Longrightarrow> distinct (map fst (assign k v conns))"
  by (simp add: keys_assign)

lemma allRecords_flat:
  assumes "distinct (map fst conns)"
  shows "allRecords conns = flat conns"
proof -
  have "sequence_at conns (fst p) = (case snd p of None \<Rightarrow> [] | Some arr \<Rightarrow> arr)"
    if "p \<in> set conns" for p
  proof -
    have "map_of conns (fst p) = Some (snd p)"
      using assms that by (cases p) simp
    then show ?thesis
      by (simp add: sequence_at_def property_def split: option.splits)
  qed
  then show ?thesis
    by (simp add: allRecords_def flat_def comp_def cong: map_cong)
qed

lemma flat_assign:
  "\<forall>p \<in> set conns. fst p = k \<longrightarrow> snd p = None \<Longrightarrow>
     length (flat (assign k v conns)) = length (flat conns) + length v"
  by (induction conns) (auto simp: flat_def)

lemma null_property:
  assumes "distinct (map fst conns)" and "property conns k = None"
  shows "\<forall>p \<in> set conns. fst p = k \<longrightarrow> snd p = None"
proof (intro ballI impI)
  fix p assume "p \<in> set conns" and "fst p = k"
  then have "map_of conns k = Some (snd p)"
    using assms(1) by (cases p) auto
  with assms(2) show "snd p = None"
    by (cases "snd p") (simp_all add: property_def)
qed

lemma allRecords_assign_new:
  assumes "distinct (map fst conns)" and "property conns k = None"
  shows "length (allRecords (assign k v conns)) = length (allRecords conns) + length v"
  using assms
  by (simp add: allRecords_flat distinct_keys_assign flat_assign null_property)

section \<open>The handshake, path by path\<close>

lemma WSS_Handshake_unfold:
  "WSS_Handshake opts env state sessionObj =
     (if \<not> transport_ok opts sessionObj then (Some False, WrongTransport, state)
      else
        let conns = (case state of None \<Rightarrow> [] | Some c \<Rightarrow> c);
            connectionID = makeConnectionID sessionObj;
            new_server_token = split_join_zero_dot (math_random env)
        in if params_user_token sessionObj \<in> user_token ` set (allRecords conns)
           then (None, DuplicateToken, Some conns)
           else case property conns connectionID of
                  None \<Rightarrow>
                    (Some True,
                     sendResult
                       \<lparr>message = ''accept'', numconnections = 1,
                        maxconnections = max_ws_per_ip opts,
                        peerconnections = Suc (length (allRecords conns)),
                        response_server_token = new_server_token\<rparr>,
                     Some (assign connectionID
                             [\<lparr>user_token = params_user_token sessionObj, socket = None,
                               last_update = DateObject (clock env),
                               server_token = new_server_token\<rparr>] conns))
                | Some arr \<Rightarrow>
                    if int (length arr) \<ge> max_ws_per_ip opts
                    then (Some True, TooManyConnections (length arr) (max_ws_per_ip opts),
                          Some conns)
                    else
                      (Some True,
                       sendResult
                         \<lparr>message = ''accept'', numconnections = Suc (length arr),
                          maxconnections = max_ws_per_ip opts,
                          peerconnections = Suc (length arr),
                          response_server_token = new_server_token\<rparr>,
                       Some (assign connectionID
                               (arr @
                                [\<lparr>user_token = params_user_token sessionObj, socket = None,
                                  last_update = Milliseconds (clock env),
                                  server_token = new_server_token\<rparr>]) conns)))"
  by (simp add: WSS_Handshake_def transport_ok_def scan_all_eq Let_def split: option.splits)

lemma reply_distinct:
  "WrongTransport \<noteq> sendResult r" "DuplicateToken \<noteq> sendResult r"
  "TooManyConnections n m \<noteq> sendResult r"
  "WrongTransport \<noteq> DuplicateToken" "WrongTransport \<noteq> TooManyConnections n m"
  "DuplicateToken \<noteq> TooManyConnections n m"
  by (simp_all add: WrongTransport_def DuplicateToken_def TooManyConnections_def)

lemmas handshake_eval =
  WSS_Handshake_def startsWith_def makeConnectionID_def property_def Let_def
  WrongTransport_def DuplicateToken_def TooManyConnections_def client_def pending_def
  transport_ok_def sequence_of_def sequence_at_def activeCountFor_def totalCount_def
  allRecords_def distinct_keys_def

lemma WSS_Handshake_other_identity:
  assumes "WSS_Handshake opts env state sessionObj = (ret, rep, state')"
    and "k \<noteq> makeConnectionID sessionObj"
  shows "sequence_of state' k = sequence_of state k"
  using assms
  by (cases state)
     (auto simp add: WSS_Handshake_unfold Let_def
        sequence_of_def property_assign_other property_Nil
        simp del: assign.simps split: if_splits option.splits)

subsection \<open>The capacity check where the limit is at least one\<close>

text \<open>
  With a limit of at least one, a handshake never takes an identity over the limit,
  whichever path it runs down: the path of an identity without a sequence inserts
  the first record, and one record is within such a limit.
\<close>

lemma WSS_Handshake_capacity_step:
  assumes "WSS_Handshake opts env state sessionObj = (ret, rep, state')"
    and "1 \<le> max_ws_per_ip opts"
    and "int (activeCountFor state k) \<le> max_ws_per_ip opts"
  shows "int (activeCountFor state' k) \<le> max_ws_per_ip opts"
proof (cases "k = makeConnectionID sessionObj")
  case False
  then show ?thesis
    using WSS_Handshake_other_identity [OF assms(1), of k] assms(3)
    by (simp add: activeCountFor_def)
next
  case True
  then show ?thesis
    using assms
    by (cases state)
       (auto simp add: WSS_Handshake_unfold Let_def activeCountFor_def
          sequence_of_def property_assign_same property_Nil
          simp del: assign.simps split: if_splits option.splits)
qed

lemma handshakes_capacity:
  "1 \<le> max_ws_per_ip opts \<Longrightarrow> int (activeCountFor state k) \<le> max_ws_per_ip opts \<Longrightarrow>
     int (activeCountFor (handshakes opts state requests) k) \<le> max_ws_per_ip opts"
proof (induction requests arbitrary: state)
  case Nil
  then show ?case by simp
next
  case (Cons request rest)
  obtain ret rep state' where
    step: "WSS_Handshake opts (fst request) state (snd request) = (ret, rep, state')"
    by (metis prod_cases3)
  have "int (activeCountFor state' k) \<le> max_ws_per_ip opts"
    using WSS_Handshake_capacity_step [OF step Cons.prems] .
  then show ?case
    using Cons.IH [of state'] Cons.prems(1) step by simp
qed

text \<open>
  An identity that has a sequence and is at the limit is turned away, and nothing
  changes, once the request is past the transport check and the token scan.
\<close>

lemma WSS_Handshake_at_capacity:
  assumes "transport_ok opts sessionObj"
    and "params_user_token sessionObj \<notin> user_token ` set (allRecords conns)"
    and "property conns (makeConnectionID sessionObj) = Some arr"
    and "max_ws_per_ip opts \<le> int (length arr)"
  shows "WSS_Handshake opts env (Some conns) sessionObj =
           (Some True, TooManyConnections (length arr) (max_ws_per_ip opts), Some conns)"
  using assms by (simp add: WSS_Handshake_unfold)

subsection \<open>The handshake keeps the user tokens of a sequence distinct\<close>

lemma tokens_distinct_None: "tokens_distinct None"
  by (simp add: tokens_distinct_def sequence_of_def)

lemma WSS_Handshake_sequence_step:
  assumes "WSS_Handshake opts env state sessionObj = (ret, rep, state')"
  shows "sequence_of state' (makeConnectionID sessionObj) =
           sequence_of state (makeConnectionID sessionObj) \<or>
         (\<exists>r. user_token r = params_user_token sessionObj \<and>
              params_user_token sessionObj \<notin>
                user_token ` set (case state of None \<Rightarrow> [] | Some conns \<Rightarrow> allRecords conns) \<and>
              sequence_of state' (makeConnectionID sessionObj) =
                Some ((case sequence_of state (makeConnectionID sessionObj) of
                         None \<Rightarrow> [] | Some arr \<Rightarrow> arr) @ [r]))"
  using assms
  by (cases state)
     (auto simp add: WSS_Handshake_unfold Let_def allRecords_Nil
        sequence_of_def property_assign_same property_Nil
        simp del: assign.simps split: if_splits option.splits)

lemma WSS_Handshake_tokens_distinct:
  assumes "WSS_Handshake opts env state sessionObj = (ret, rep, state')"
    and "tokens_distinct state"
  shows "tokens_distinct state'"
proof -
  have "distinct (map user_token arr')" if s': "sequence_of state' k = Some arr'" for k arr'
  proof (cases "k = makeConnectionID sessionObj")
    case False
    then show ?thesis
      using WSS_Handshake_other_identity [OF assms(1), of k] s' assms(2)
      by (simp add: tokens_distinct_def)
  next
    case True
    from WSS_Handshake_sequence_step [OF assms(1)]
    show ?thesis
    proof
      assume "sequence_of state' (makeConnectionID sessionObj) =
                sequence_of state (makeConnectionID sessionObj)"
      then show ?thesis
        using s' True assms(2) by (simp add: tokens_distinct_def)
    next
      assume "\<exists>r. user_token r = params_user_token sessionObj \<and>
              params_user_token sessionObj \<notin>
                user_token ` set (case state of None \<Rightarrow> [] | Some conns \<Rightarrow> allRecords conns) \<and>
              sequence_of state' (makeConnectionID sessionObj) =
                Some ((case sequence_of state (makeConnectionID sessionObj) of
                         None \<Rightarrow> [] | Some arr \<Rightarrow> arr) @ [r])"
      then obtain r where r: "user_token r = params_user_token sessionObj"
        and fresh: "params_user_token sessionObj \<notin>
                user_token ` set (case state of None \<Rightarrow> [] | Some conns \<Rightarrow> allRecords conns)"
        and new: "sequence_of state' (makeConnectionID sessionObj) =
                Some ((case sequence_of state (makeConnectionID sessionObj) of
                         None \<Rightarrow> [] | Some arr \<Rightarrow> arr) @ [r])"
        by blast
      show ?thesis
      proof (cases "sequence_of state (makeConnectionID sessionObj)")
        case None
        then show ?thesis
          using new s' True by auto
      next
        case (Some arr)
        then obtain conns where conns: "state = Some conns"
          and p: "property conns (makeConnectionID sessionObj) = Some arr"
          by (cases state) (auto simp add: sequence_of_def)
        have "params_user_token sessionObj \<notin> user_token ` set arr"
          using fresh conns record_in_allRecords [OF p] by auto
        moreover have "distinct (map user_token arr)"
          using assms(2) Some by (simp add: tokens_distinct_def)
        ultimately show ?thesis
          using new s' True Some r by auto
      qed
    qed
  qed
  then show ?thesis
    by (simp add: tokens_distinct_def)
qed

lemma handshakes_tokens_distinct:
  "tokens_distinct state \<Longrightarrow> tokens_distinct (handshakes opts state requests)"
proof (induction requests arbitrary: state)
  case Nil
  then show ?case by simp
next
  case (Cons request rest)
  obtain ret rep state' where
    step: "WSS_Handshake opts (fst request) state (snd request) = (ret, rep, state')"
    by (metis prod_cases3)
  show ?case
    using Cons.IH [OF WSS_Handshake_tokens_distinct [OF step Cons.prems]] step by simp
qed

lemma sequence_at_distinct:
  "tokens_distinct (Some conns) \<Longrightarrow> distinct (map user_token (sequence_at conns k))"
  by (cases "property conns k")
     (auto simp add: tokens_distinct_def sequence_of_def sequence_at_def)

section \<open>Lemmas on the validator, the private identifier and the correlator\<close>

text \<open>
  Before the first handshake has created the registry, the validator does not answer:
  the property read throws.
\<close>

lemma handshakeOK_uncreated_registry: "handshakeOK None sessionObj = Inl TypeError"
  by (simp add: handshakeOK_def)

lemma match_tokens_find:
  "match_tokens arr ut st =
     (case find (\<lambda>c. user_token c = ut) arr of
        None \<Rightarrow> False
      | Some c \<Rightarrow> server_token c = st)"
  by (induction arr) auto

lemma match_tokens_sound:
  "match_tokens arr ut st \<Longrightarrow> \<exists>c \<in> set arr. user_token c = ut \<and> server_token c = st"
  by (induction arr) (auto split: if_splits)

lemma match_tokens_complete:
  "distinct (map user_token arr) \<Longrightarrow> c \<in> set arr \<Longrightarrow> user_token c = ut \<Longrightarrow>
     server_token c = st \<Longrightarrow> match_tokens arr ut st"
  by (induction arr) (auto split: if_splits)

lemma colon_separates:
  assumes "CHR '':'' \<notin> set s" and "CHR '':'' \<notin> set u"
    and "s @ '':'' @ u = u @ '':'' @ s"
  shows "s = u"
proof -
  have "takeWhile (\<lambda>c. c \<noteq> CHR '':'') (s @ '':'' @ u) = s"
    using assms(1) by (auto simp add: takeWhile_tail)
  moreover have "takeWhile (\<lambda>c. c \<noteq> CHR '':'') (u @ '':'' @ s) = u"
    using assms(2) by (auto simp add: takeWhile_tail)
  ultimately show ?thesis
    using assms(3) by simp
qed

lemma wait_loop_mismatches:
  assumes "\<forall>e \<in> set before.
             \<exists>r. parse (data e) = Some (JSON_object r) \<and> rpc_id r \<noteq> Some requestID"
    and "rpc_id result0 \<noteq> Some requestID"
  shows "wait_loop parse requestID (JSON_object result0) (before @ m # after) =
           (case parse (data m) of
              None \<Rightarrow> Rejected SyntaxError after
            | Some result \<Rightarrow> wait_loop parse requestID result after)"
  using assms by (induction before arbitrary: result0) auto

lemma wait_loop_suspended:
  assumes "\<forall>e \<in> set before.
             \<exists>r. parse (data e) = Some (JSON_object r) \<and> rpc_id r \<noteq> Some requestID"
    and "rpc_id result0 \<noteq> Some requestID"
  shows "wait_loop parse requestID (JSON_object result0) before = Suspended"
  using assms by (induction before arbitrary: result0) auto

lemma wait_loop_match:
  "rpc_id result = Some requestID \<Longrightarrow>
     wait_loop parse requestID (JSON_object result) after = Resolved result after"
  by (cases after) simp_all

lemma await_reply_next:
  assumes "\<forall>e \<in> set before.
             \<exists>r. parse (data e) = Some (JSON_object r) \<and> rpc_id r \<noteq> Some requestID"
  shows "await_reply parse requestID (before @ m # after) =
           (case parse (data m) of
              None \<Rightarrow> Rejected SyntaxError after
            | Some result \<Rightarrow> wait_loop parse requestID result after)"
proof (cases before)
  case Nil
  then show ?thesis
    by (simp add: await_reply_def)
next
  case (Cons e es)
  then obtain r where r: "parse (data e) = Some (JSON_object r)" "rpc_id r \<noteq> Some requestID"
    using assms by auto
  have es: "\<forall>e \<in> set es.
              \<exists>r. parse (data e) = Some (JSON_object r) \<and> rpc_id r \<noteq> Some requestID"
    using assms Cons by simp
  show ?thesis
    using Cons r wait_loop_mismatches [OF es r(2), of m after]
    by (simp add: await_reply_def)
qed

lemma await_reply_waiting:
  assumes "\<forall>e \<in> set before.
             \<exists>r. parse (data e) = Some (JSON_object r) \<and> rpc_id r \<noteq> Some requestID"
  shows "await_reply parse requestID before = Suspended"
proof (cases before)
  case Nil
  then show ?thesis
    by (simp add: await_reply_def)
next
  case (Cons e es)
  then obtain r where r: "parse (data e) = Some (JSON_object r)" "rpc_id r \<noteq> Some requestID"
    using assms by auto
  have es: "\<forall>e \<in> set es.
              \<exists>r. parse (data e) = Some (JSON_object r) \<and> rpc_id r \<noteq> Some requestID"
    using assms Cons by simp
  show ?thesis
    using Cons r wait_loop_suspended [OF es r(2)]
    by (simp add: await_reply_def)
qed

text \<open>
  The two ways in which a waiting call is rejected: a message that \<open>JSON.parse\<close>
  refuses, and a message that parses to \<open>null\<close>. Neither is discarded; the messages
  after it stay unread.
\<close>

lemma await_reply_unparsable:
  assumes "\<forall>e \<in> set before.
             \<exists>r. parse (data e) = Some (JSON_object r) \<and> rpc_id r \<noteq> Some requestID"
    and "parse (data m) = None"
  shows "await_reply parse requestID (before @ m # after) = Rejected SyntaxError after"
  using await_reply_next [OF assms(1), of m after] assms(2) by simp

lemma await_reply_null:
  assumes "\<forall>e \<in> set before.
             \<exists>r. parse (data e) = Some (JSON_object r) \<and> rpc_id r \<noteq> Some requestID"
    and "parse (data m) = Some JSON_null"
  shows "await_reply parse requestID (before @ m # after) = Rejected TypeError after"
  using await_reply_next [OF assms(1), of m after] assms(2) by simp

lemma await_reply_null_example:
  "await_reply parse_id_only ''Y'' [\<lparr>data = ''X''\<rparr>, \<lparr>data = ''null''\<rparr>, \<lparr>data = ''Y''\<rparr>] =
     Rejected TypeError [\<lparr>data = ''Y''\<rparr>]"
  by (simp add: await_reply_def parse_id_only_def)

section \<open>What the accepting branches report, and what the validator answers\<close>

text \<open>
  In the reply of a successful handshake \<open>numconnections\<close> is the length of the
  identity's sequence after the insert and \<open>maxconnections\<close> is the configured
  limit. \<open>peerconnections\<close> differs between the branches: the count over all
  identities for an identity that had no sequence, the identity's own count for one
  that had.
\<close>

lemma WSS_Handshake_accept_counts:
  assumes "WSS_Handshake opts env state sessionObj = (ret, sendResult responseObj, state')"
  shows "numconnections responseObj = activeCountFor state' (makeConnectionID sessionObj) \<and>
         (activeCountFor state (makeConnectionID sessionObj) = 0 \<longrightarrow>
            numconnections responseObj = 1) \<and>
         maxconnections responseObj = max_ws_per_ip opts \<and>
         (sequence_of state (makeConnectionID sessionObj) = None \<longrightarrow>
            peerconnections responseObj = Suc (totalCount state) \<and>
            (distinct_keys state \<longrightarrow> peerconnections responseObj = totalCount state')) \<and>
         (sequence_of state (makeConnectionID sessionObj) \<noteq> None \<longrightarrow>
            peerconnections responseObj = activeCountFor state' (makeConnectionID sessionObj))"
  using assms
  by (cases state)
     (auto simp add: WSS_Handshake_unfold Let_def reply_distinct activeCountFor_def
        sequence_of_def totalCount_def distinct_keys_def property_assign_same
        allRecords_assign_new allRecords_Nil property_Nil
        simp del: assign.simps split: if_splits option.splits)

text \<open>
  On a registry that exists, \<open>handshakeOK\<close> raises nothing and returns true exactly
  when the first record of the identity's sequence that carries the claimed user
  token also carries the claimed server token. Where the user tokens of the sequence
  are pairwise different, and so on every registry that handshakes alone have built,
  the result is true if and only if some record matches both tokens; an identity
  without a sequence, or with an empty one, gets false.
\<close>

lemma handshakeOK_first_match:
  "handshakeOK (Some conns) sessionObj =
     Inr (case property conns (makeConnectionID sessionObj) of
            None \<Rightarrow> False
          | Some arr \<Rightarrow>
              (case find (\<lambda>c. user_token c = params_user_token sessionObj) arr of
                 None \<Rightarrow> False
               | Some c \<Rightarrow> server_token c = params_server_token sessionObj)) \<and>
   (handshakeOK (Some conns) sessionObj = Inr True \<longrightarrow>
      (\<exists>c \<in> set (sequence_at conns (makeConnectionID sessionObj)).
         both_tokens_match sessionObj c)) \<and>
   (distinct (map user_token (sequence_at conns (makeConnectionID sessionObj))) \<longrightarrow>
      handshakeOK (Some conns) sessionObj =
        Inr (\<exists>c \<in> set (sequence_at conns (makeConnectionID sessionObj)).
               both_tokens_match sessionObj c)) \<and>
   ((\<exists>opts requests. handshakes opts None requests = Some conns) \<longrightarrow>
      handshakeOK (Some conns) sessionObj =
        Inr (\<exists>c \<in> set (sequence_at conns (makeConnectionID sessionObj)).
               both_tokens_match sessionObj c)) \<and>
   (sequence_at conns (makeConnectionID sessionObj) = [] \<longrightarrow>
      handshakeOK (Some conns) sessionObj = Inr False)"
proof -
  have built: "distinct (map user_token (sequence_at conns (makeConnectionID sessionObj)))"
    if "\<exists>opts requests. handshakes opts None requests = Some conns"
  proof -
    from that obtain opts requests where "handshakes opts None requests = Some conns"
      by blast
    then have "tokens_distinct (Some conns)"
      using handshakes_tokens_distinct [OF tokens_distinct_None, of opts requests] by simp
    then show ?thesis
      by (rule sequence_at_distinct)
  qed
  show ?thesis
  proof (cases "property conns (makeConnectionID sessionObj)")
    case None
    then show ?thesis
      by (simp add: handshakeOK_def sequence_at_def)
  next
    case (Some arr)
    have 1: "handshakeOK (Some conns) sessionObj =
               Inr (match_tokens arr (params_user_token sessionObj)
                      (params_server_token sessionObj))"
      using Some by (cases arr) (simp_all add: handshakeOK_def)
    have 2: "sequence_at conns (makeConnectionID sessionObj) = arr"
      using Some by (simp add: sequence_at_def)
    have 3: "distinct (map user_token arr) \<Longrightarrow>
               match_tokens arr (params_user_token sessionObj) (params_server_token sessionObj) =
                 (\<exists>c \<in> set arr. both_tokens_match sessionObj c)"
      unfolding both_tokens_match_def
      using match_tokens_sound match_tokens_complete by blast
    have 4: "(\<exists>opts requests. handshakes opts None requests = Some conns) \<Longrightarrow>
               distinct (map user_token arr)"
      using built 2 by simp
    show ?thesis
      unfolding 1 2
      using Some 3 4
        match_tokens_sound [of arr "params_user_token sessionObj" "params_server_token sessionObj"]
      by (auto simp add: match_tokens_find both_tokens_match_def)
  qed
qed

section \<open>The claims\<close>

subsection \<open>C1: the capacity limit\<close>

text \<open>
  C1. The limit is enforced only on the path of an identity that already has a
  sequence. With \<open>max_ws_per_ip = 0\<close> the first handshake of a brand-new identity is
  accepted: the reply reports one connection against a maximum of zero, and the
  identity holds one record, more than the limit. (For a limit of at least one the
  bound holds on both paths, see \<open>handshakes_capacity\<close> and
  \<open>WSS_Handshake_at_capacity\<close>.)
\<close>

theorem WSS_Handshake_new_identity_unchecked:
  "WSS_Handshake \<lparr>http_only_handshake = False, max_ws_per_ip = 0\<rparr>
     \<lparr>math_random = ''0.9789091435706088'', clock = 1000\<rparr> None
     (client ''http'' ''10.0.0.1'' ''7060939278321507'' '''') =
   (Some True,
    sendResult \<lparr>message = ''accept'', numconnections = 1, maxconnections = 0,
                peerconnections = 1, response_server_token = ''9789091435706088''\<rparr>,
    Some [(''IPv4:10.0.0.1'',
           Some [pending ''7060939278321507'' ''9789091435706088'' (DateObject 1000)])]) \<and>
   int (activeCountFor
     (Some [(''IPv4:10.0.0.1'',
             Some [pending ''7060939278321507'' ''9789091435706088'' (DateObject 1000)])])
     ''IPv4:10.0.0.1'') >
   max_ws_per_ip \<lparr>http_only_handshake = False, max_ws_per_ip = 0\<rparr>"
  by (simp add: handshake_eval)

subsection \<open>C2: a user token already in the registry\<close>

text \<open>
  C2, as amended. A handshake request that is not stopped by the transport check and
  whose user token is the user token of a record in the sequence of any identity
  fails with DuplicateToken; the handler returns \<open>undefined\<close> and the registry is
  the one it was.
\<close>

theorem WSS_Handshake_duplicate_token:
  assumes "transport_ok opts sessionObj"
    and "property conns k = Some arr"
    and "r \<in> set arr"
    and "user_token r = params_user_token sessionObj"
  shows "WSS_Handshake opts env (Some conns) sessionObj = (None, DuplicateToken, Some conns)"
proof -
  have "params_user_token sessionObj \<in> user_token ` set (allRecords conns)"
    using record_in_allRecords [OF assms(2,3)] assms(4) by force
  then show ?thesis
    using assms(1) by (auto simp add: WSS_Handshake_def transport_ok_def scan_all_eq)
qed

theorem WSS_Handshake_duplicate_token_witness:
  "transport_ok \<lparr>http_only_handshake = True, max_ws_per_ip = 3\<rparr>
     (client ''https'' ''10.0.0.2'' ''7060939278321507'' '''') \<and>
   WSS_Handshake \<lparr>http_only_handshake = True, max_ws_per_ip = 3\<rparr>
     \<lparr>math_random = ''0.5'', clock = 2000\<rparr>
     (Some [(''IPv4:10.0.0.1'',
             Some [pending ''7060939278321507'' ''9789091435706088'' (DateObject 1000)])])
     (client ''https'' ''10.0.0.2'' ''7060939278321507'' '''') =
   (None, DuplicateToken,
    Some [(''IPv4:10.0.0.1'',
           Some [pending ''7060939278321507'' ''9789091435706088'' (DateObject 1000)])])"
proof -
  let ?r = "pending ''7060939278321507'' ''9789091435706088'' (DateObject 1000)"
  let ?conns = "[(''IPv4:10.0.0.1'', Some [?r])]"
  let ?s = "client ''https'' ''10.0.0.2'' ''7060939278321507'' ''''"
  let ?opts = "\<lparr>http_only_handshake = True, max_ws_per_ip = 3\<rparr>"
  have t: "transport_ok ?opts ?s"
    by (simp add: transport_ok_def client_def startsWith_def)
  have p: "property ?conns ''IPv4:10.0.0.1'' = Some [?r]"
    by (simp add: property_def)
  have m: "?r \<in> set [?r]" by simp
  have u: "user_token ?r = params_user_token ?s"
    by (simp add: pending_def client_def)
  show ?thesis
    using t WSS_Handshake_duplicate_token [OF t p m u] by simp
qed

text \<open>
  The claim without the amendment fails: the transport check comes first, so a
  request with a token in use that arrives over a WebSocket endpoint while
  \<open>http_only_handshake\<close> is set fails with WrongTransport.
\<close>

theorem WSS_Handshake_duplicate_token_counterexample:
  "property
     [(''IPv4:10.0.0.1'',
       Some [pending ''7060939278321507'' ''9789091435706088'' (DateObject 1000)])]
     ''IPv4:10.0.0.1'' =
     Some [pending ''7060939278321507'' ''9789091435706088'' (DateObject 1000)] \<and>
   user_token (pending ''7060939278321507'' ''9789091435706088'' (DateObject 1000)) =
     params_user_token (client ''ws'' ''10.0.0.2'' ''7060939278321507'' '''') \<and>
   WSS_Handshake \<lparr>http_only_handshake = True, max_ws_per_ip = 3\<rparr>
     \<lparr>math_random = ''0.5'', clock = 2000\<rparr>
     (Some [(''IPv4:10.0.0.1'',
             Some [pending ''7060939278321507'' ''9789091435706088'' (DateObject 1000)])])
     (client ''ws'' ''10.0.0.2'' ''7060939278321507'' '''') =
   (Some False, WrongTransport,
    Some [(''IPv4:10.0.0.1'',
           Some [pending ''7060939278321507'' ''9789091435706088'' (DateObject 1000)])]) \<and>
   WrongTransport \<noteq> DuplicateToken"
  by (simp add: handshake_eval)

subsection \<open>C3: the counts of the accept reply\<close>

text \<open>
  C3. In the accept reply to an identity that had no sequence, \<open>peerconnections\<close> is
  not the number of records of that identity after the insert: it is the number of
  records of all identities. With two records of another identity in the registry, a
  new identity is told \<open>peerconnections = 3\<close> while it holds one record. At its
  next handshake the other branch answers, which reports the length of the identity's
  own sequence, and it is told \<open>peerconnections = 2\<close>. (\<open>numconnections\<close> is the
  identity's own count on both paths, see \<open>WSS_Handshake_accept_counts\<close>.)
\<close>

theorem WSS_Handshake_peerconnections_all_identities:
  "WSS_Handshake \<lparr>http_only_handshake = True, max_ws_per_ip = 3\<rparr>
     \<lparr>math_random = ''0.5'', clock = 2000\<rparr>
     (Some [(''IPv4:10.0.0.1'',
             Some [pending ''7060939278321507'' ''9789091435706088'' (DateObject 1000),
                   pending ''4242'' ''75'' (Milliseconds 1500)])])
     (client ''https'' ''10.0.0.2'' ''1234'' '''') =
   (Some True,
    sendResult \<lparr>message = ''accept'', numconnections = 1, maxconnections = 3,
                peerconnections = 3, response_server_token = ''5''\<rparr>,
    Some [(''IPv4:10.0.0.1'',
           Some [pending ''7060939278321507'' ''9789091435706088'' (DateObject 1000),
                 pending ''4242'' ''75'' (Milliseconds 1500)]),
          (''IPv4:10.0.0.2'', Some [pending ''1234'' ''5'' (DateObject 2000)])]) \<and>
   makeConnectionID (client ''https'' ''10.0.0.2'' ''1234'' '''') = ''IPv4:10.0.0.2'' \<and>
   activeCountFor
     (Some [(''IPv4:10.0.0.1'',
             Some [pending ''7060939278321507'' ''9789091435706088'' (DateObject 1000),
                   pending ''4242'' ''75'' (Milliseconds 1500)]),
            (''IPv4:10.0.0.2'', Some [pending ''1234'' ''5'' (DateObject 2000)])])
     ''IPv4:10.0.0.2'' = 1 \<and>
   WSS_Handshake \<lparr>http_only_handshake = True, max_ws_per_ip = 3\<rparr>
     \<lparr>math_random = ''0.25'', clock = 3000\<rparr>
     (Some [(''IPv4:10.0.0.1'',
             Some [pending ''7060939278321507'' ''9789091435706088'' (DateObject 1000),
                   pending ''4242'' ''75'' (Milliseconds 1500)]),
            (''IPv4:10.0.0.2'', Some [pending ''1234'' ''5'' (DateObject 2000)])])
     (client ''https'' ''10.0.0.2'' ''5678'' '''') =
   (Some True,
    sendResult \<lparr>message = ''accept'', numconnections = 2, maxconnections = 3,
                peerconnections = 2, response_server_token = ''25''\<rparr>,
    Some [(''IPv4:10.0.0.1'',
           Some [pending ''7060939278321507'' ''9789091435706088'' (DateObject 1000),
                 pending ''4242'' ''75'' (Milliseconds 1500)]),
          (''IPv4:10.0.0.2'',
           Some [pending ''1234'' ''5'' (DateObject 2000),
                 pending ''5678'' ''25'' (Milliseconds 3000)])])"
  by (simp add: handshake_eval)

subsection \<open>C4: the session validator\<close>

text \<open>
  C4. While no handshake has created the registry, the validator does not return
  false: reading a property of the undefined \<open>connections\<close> throws a TypeError. A
  handshake that the transport check refuses leaves the registry uncreated, and the
  validator then raises, whatever the session. \<open>WSS_Handshake\<close> guards against the
  uncreated registry; \<open>handshakeOK\<close> does not. (On a registry that handshakes have
  built the validator returns true if and only if some record matches both tokens,
  see \<open>handshakeOK_first_match\<close>.)
\<close>

theorem handshakeOK_raises_on_uncreated_registry:
  "handshakes \<lparr>http_only_handshake = True, max_ws_per_ip = 3\<rparr> None
     [(\<lparr>math_random = ''0.5'', clock = 2000\<rparr>, client ''ws'' ''10.0.0.2'' ''1234'' '''')] =
     None \<and>
   handshakeOK None (client ''wss'' ''10.0.0.2'' ''1234'' ''5'') = Inl TypeError"
  by (simp add: handshake_eval handshakeOK_def)

subsection \<open>C5: the private identifier with its arguments swapped\<close>

text \<open>
  C5, as amended. For non-empty strings \<open>s\<close> and \<open>u\<close> that differ and contain no
  colon, \<open>makePrivateID(s, u)\<close> and \<open>makePrivateID(u, s)\<close> are the digests of two
  different strings, \<open>s:u\<close> and \<open>u:s\<close>; the two identifiers differ unless the hash
  takes these two strings to one digest.
\<close>

theorem makePrivateID_swapped:
  assumes "s \<noteq> []" and "u \<noteq> []" and "s \<noteq> u"
    and "CHR '':'' \<notin> set s" and "CHR '':'' \<notin> set u"
  shows "makePrivateID sha256_hex (JS_string s) (JS_string u) = Some (sha256_hex (s @ '':'' @ u)) \<and>
         makePrivateID sha256_hex (JS_string u) (JS_string s) = Some (sha256_hex (u @ '':'' @ s)) \<and>
         s @ '':'' @ u \<noteq> u @ '':'' @ s \<and>
         (sha256_hex (s @ '':'' @ u) \<noteq> sha256_hex (u @ '':'' @ s) \<longrightarrow>
            makePrivateID sha256_hex (JS_string s) (JS_string u) \<noteq>
            makePrivateID sha256_hex (JS_string u) (JS_string s))"
  using assms colon_separates [of s u]
  by (auto simp add: makePrivateID_def)

theorem makePrivateID_swapped_witness:
  "''9789091435706088'' \<noteq> ''7060939278321507'' \<and>
   CHR '':'' \<notin> set ''9789091435706088'' \<and> CHR '':'' \<notin> set ''7060939278321507'' \<and>
   makePrivateID rev (JS_string ''9789091435706088'') (JS_string ''7060939278321507'') =
     Some (rev ''9789091435706088:7060939278321507'') \<and>
   makePrivateID rev (JS_string ''7060939278321507'') (JS_string ''9789091435706088'') =
     Some (rev ''7060939278321507:9789091435706088'') \<and>
   makePrivateID rev (JS_string ''9789091435706088'') (JS_string ''7060939278321507'') \<noteq>
   makePrivateID rev (JS_string ''7060939278321507'') (JS_string ''9789091435706088'')"
  using makePrivateID_swapped [of "''9789091435706088''" "''7060939278321507''" rev]
  by simp

text \<open>
  The claim without the amendment fails whatever the hash is: \<open>a:a\<close> and \<open>a\<close> are
  non-empty and differ, and in either order the string that is hashed is \<open>a:a:a\<close>.
\<close>

theorem makePrivateID_swapped_counterexample:
  "\<forall>sha256_hex.
     makePrivateID sha256_hex (JS_string ''a:a'') (JS_string ''a'') =
       Some (sha256_hex ''a:a:a'') \<and>
     makePrivateID sha256_hex (JS_string ''a'') (JS_string ''a:a'') =
       Some (sha256_hex ''a:a:a'')"
  by (simp add: makePrivateID_def)

subsection \<open>C6: the correlator\<close>

text \<open>
  C6. The call that waits for \<open>requestID\<close> discards every inbound message that
  carries another id (it parses to a value whose \<open>id\<close> can be read, and that id is
  not \<open>requestID\<close>), resolves with the parsed object of the first message that
  carries \<open>requestID\<close>, and leaves the messages after it unread; while only messages
  with other ids have arrived, it stays suspended. \<open>callContractAPI\<close> is such a
  call, waiting for the request id it has drawn.
\<close>

theorem await_reply_discards_until_match:
  assumes "\<forall>e \<in> set before.
             \<exists>r. parse (data e) = Some (JSON_object r) \<and> rpc_id r \<noteq> Some requestID"
    and "parse (data m) = Some (JSON_object result)"
    and "rpc_id result = Some requestID"
  shows "await_reply parse requestID (before @ m # after) = Resolved result after \<and>
         await_reply parse requestID before = Suspended \<and>
         (make_requestID random = requestID \<longrightarrow>
            callContractAPI parse random (before @ m # after) = Resolved result after \<and>
            callContractAPI parse random before = Suspended)"
  using await_reply_next [OF assms(1), of m after] await_reply_waiting [OF assms(1)] assms(2,3)
  by (simp add: callContractAPI_def wait_loop_match)

text \<open>
  The stream X, Y, Z and a call that waits for Y; and \<open>callContractAPI\<close>, having
  drawn the request id CPSC123, on a stream in which that id comes second.
\<close>

theorem await_reply_discards_until_match_witness:
  "await_reply parse_id_only ''Y'' [\<lparr>data = ''X''\<rparr>, \<lparr>data = ''Y''\<rparr>, \<lparr>data = ''Z''\<rparr>] =
     Resolved \<lparr>rpc_id = Some ''Y'', rpc_content = ''{}''\<rparr> [\<lparr>data = ''Z''\<rparr>] \<and>
   await_reply parse_id_only ''Y'' [\<lparr>data = ''X''\<rparr>] = Suspended \<and>
   make_requestID ''0.123'' = ''CPSC123'' \<and>
   callContractAPI parse_id_only ''0.123''
     [\<lparr>data = ''X''\<rparr>, \<lparr>data = ''CPSC123''\<rparr>, \<lparr>data = ''Z''\<rparr>] =
     Resolved \<lparr>rpc_id = Some ''CPSC123'', rpc_content = ''{}''\<rparr> [\<lparr>data = ''Z''\<rparr>]"
proof -
  have 1: "\<forall>e \<in> set [\<lparr>data = ''X''\<rparr>].
             \<exists>r. parse_id_only (data e) = Some (JSON_object r) \<and> rpc_id r \<noteq> Some ''Y''"
    by (simp add: parse_id_only_def)
  have 2: "parse_id_only (data \<lparr>data = ''Y''\<rparr>) =
             Some (JSON_object \<lparr>rpc_id = Some ''Y'', rpc_content = ''{}''\<rparr>)"
    by (simp add: parse_id_only_def)
  have 3: "rpc_id \<lparr>rpc_id = Some ''Y'', rpc_content = ''{}''\<rparr> = Some ''Y''"
    by simp
  have 4: "\<forall>e \<in> set [\<lparr>data = ''X''\<rparr>].
             \<exists>r. parse_id_only (data e) = Some (JSON_object r) \<and>
                 rpc_id r \<noteq> Some ''CPSC123''"
    by (simp add: parse_id_only_def)
  have 5: "parse_id_only (data \<lparr>data = ''CPSC123''\<rparr>) =
             Some (JSON_object \<lparr>rpc_id = Some ''CPSC123'', rpc_content = ''{}''\<rparr>)"
    by (simp add: parse_id_only_def)
  have 6: "rpc_id \<lparr>rpc_id = Some ''CPSC123'', rpc_content = ''{}''\<rparr> = Some ''CPSC123''"
    by simp
  have 7: "make_requestID ''0.123'' = ''CPSC123''"
    by (simp add: make_requestID_def split_dot_second_def)
  show ?thesis
    using 7 await_reply_discards_until_match
        [OF 1 2 3, where after = "[\<lparr>data = ''Z''\<rparr>]" and random = "''0.123''"]
      await_reply_discards_until_match
        [OF 4 5 6, where after = "[\<lparr>data = ''Z''\<rparr>]" and random = "''0.123''"]
    by simp
qed

subsection \<open>C7: the private identifier of two non-empty strings\<close>

text \<open>
  C7. For non-empty strings, \<open>makePrivateID\<close> returns the hexadecimal digest of
  the server token, a colon and the user token. It is a function of its two
  arguments: it reads and writes no state.
\<close>

theorem makePrivateID_digest:
  "s \<noteq> [] \<Longrightarrow> u \<noteq> [] \<Longrightarrow>
     makePrivateID sha256_hex (JS_string s) (JS_string u) = Some (sha256_hex (s @ '':'' @ u))"
  by (simp add: makePrivateID_def)

theorem makePrivateID_digest_witness:
  "''9789091435706088'' \<noteq> [] \<and> ''7060939278321507'' \<noteq> [] \<and>
   makePrivateID rev (JS_string ''9789091435706088'') (JS_string ''7060939278321507'') =
     Some (rev ''9789091435706088:7060939278321507'')"
  using makePrivateID_digest [of "''9789091435706088''" "''7060939278321507''" rev]
  by simp

subsection \<open>C8: invalid arguments of the private identifier\<close>

text \<open>
  C8. When either argument is missing, is not a string, or is the empty string,
  \<open>makePrivateID\<close> returns \<open>null\<close>, never a digest.
\<close>

theorem makePrivateID_invalid:
  "typeof server_tok \<noteq> ''string'' \<or> typeof user_tok \<noteq> ''string'' \<or>
   server_tok = JS_string [] \<or> user_tok = JS_string [] \<Longrightarrow>
     makePrivateID sha256_hex server_tok user_tok = None"
  by (cases server_tok; cases user_tok) (auto simp add: makePrivateID_def)

theorem makePrivateID_invalid_witness:
  "typeof JS_undefined \<noteq> ''string'' \<and>
   makePrivateID rev JS_undefined (JS_string ''7060939278321507'') = None \<and>
   typeof (JS_number 7060939278321507) \<noteq> ''string'' \<and>
   makePrivateID rev (JS_string ''9789091435706088'') (JS_number 7060939278321507) = None \<and>
   makePrivateID rev (JS_string '''') (JS_string ''7060939278321507'') = None \<and>
   makePrivateID rev (JS_string ''9789091435706088'') (JS_string '''') = None"
  using makePrivateID_invalid [of JS_undefined "JS_string ''7060939278321507''" rev]
    makePrivateID_invalid [of "JS_string ''9789091435706088''" "JS_number 7060939278321507" rev]
    makePrivateID_invalid [of "JS_string ''''" "JS_string ''7060939278321507''" rev]
    makePrivateID_invalid [of "JS_string ''9789091435706088''" "JS_string ''''" rev]
  by simp

subsection \<open>C9: the transport check\<close>

text \<open>
  C9. A handshake request on an endpoint that does not start with \<open>http\<close>, while
  \<open>http_only_handshake\<close> is set, fails with WrongTransport; the handler returns
  false and the registry is untouched, not even created. When the flag is unset no
  request fails with WrongTransport.
\<close>

theorem WSS_Handshake_transport_check:
  "(startsWith (endpoint sessionObj) ''http'' = False \<and> http_only_handshake opts \<longrightarrow>
      WSS_Handshake opts env state sessionObj = (Some False, WrongTransport, state)) \<and>
   (\<not> http_only_handshake opts \<longrightarrow>
      fst (snd (WSS_Handshake opts env state sessionObj)) \<noteq> WrongTransport)"
  by (simp add: WSS_Handshake_def Let_def WrongTransport_def DuplicateToken_def
        TooManyConnections_def split: option.splits)

theorem WSS_Handshake_transport_check_witness:
  "startsWith (endpoint (client ''ws'' ''10.0.0.1'' ''7060939278321507'' '''')) ''http'' = False \<and>
   http_only_handshake \<lparr>http_only_handshake = True, max_ws_per_ip = 3\<rparr> \<and>
   WSS_Handshake \<lparr>http_only_handshake = True, max_ws_per_ip = 3\<rparr>
     \<lparr>math_random = ''0.9789091435706088'', clock = 1000\<rparr> None
     (client ''ws'' ''10.0.0.1'' ''7060939278321507'' '''') = (Some False, WrongTransport, None) \<and>
   \<not> http_only_handshake \<lparr>http_only_handshake = False, max_ws_per_ip = 3\<rparr> \<and>
   fst (snd (WSS_Handshake \<lparr>http_only_handshake = False, max_ws_per_ip = 3\<rparr>
     \<lparr>math_random = ''0.9789091435706088'', clock = 1000\<rparr> None
     (client ''ws'' ''10.0.0.1'' ''7060939278321507'' ''''))) \<noteq> WrongTransport"
  using WSS_Handshake_transport_check
      [of "client ''ws'' ''10.0.0.1'' ''7060939278321507'' ''''"
          "\<lparr>http_only_handshake = True, max_ws_per_ip = 3\<rparr>"
          "\<lparr>math_random = ''0.9789091435706088'', clock = 1000\<rparr>" None]
    WSS_Handshake_transport_check
      [of "client ''ws'' ''10.0.0.1'' ''7060939278321507'' ''''"
          "\<lparr>http_only_handshake = False, max_ws_per_ip = 3\<rparr>"
          "\<lparr>math_random = ''0.9789091435706088'', clock = 1000\<rparr>" None]
  by (simp add: client_def startsWith_def)

subsection \<open>C10: the two representations of last\_update\<close>



end
